theory Spec2Isabelle
  imports Complex_Main
begin

section \<open>Numbers and failures\<close>

text \<open>
  The analysis scripts compute with Python floats. The model computes with the real
  numbers: rounding, overflow and the special values of IEEE arithmetic are outside it,
  and so is every statement about the exact double that a computation returns.
  Wherever Python has no real number to return, the model returns an error value:
  \<^item> \<open>ZeroDivisionError\<close>: float division by zero, and \<open>0.0 ** a\<close> for negative \<open>a\<close>;
  \<^item> \<open>NotReal\<close>: the result is not a real number (a negative base raised to a
    fractional exponent gives a complex number in Python; numpy scalars give \<open>nan\<close> or
    \<open>inf\<close>);
  \<^item> \<open>KeyError k\<close>: \<open>d[k]\<close> on a dict without the key \<open>k\<close>;
  \<^item> \<open>TypeError\<close>: an entry of a loaded artifact is not of the JSON type the code
    uses it at;
  \<^item> \<open>IndexError\<close>: \<open>iloc[0]\<close> or \<open>iloc[-1]\<close> on an empty table;
  \<^item> \<open>AttributeError\<close>: the \<open>.dt\<close> accessor on the date column of a table without rows,
    which \<open>read_csv\<close> leaves unparsed;
  \<^item> \<open>InvalidIndexError\<close>: pandas refuses to look values up in a Series whose index
    has duplicates;
  \<^item> \<open>FitError\<close>: the regression library raised.
\<close>

datatype error =
  KeyError string | ZeroDivisionError | NotReal | TypeError | IndexError
  | AttributeError | InvalidIndexError | FitError

text \<open>Sequencing of steps that may fail: the first failure ends the run.\<close>

definition and_then :: "error + 'a \<Rightarrow> ('a \<Rightarrow> error + 'b) \<Rightarrow> error + 'b" where
  "and_then r f = (case r of Inl e \<Rightarrow> Inl e | Inr x \<Rightarrow> f x)"

fun for_each :: "('a \<Rightarrow> error + 'b) \<Rightarrow> 'a list \<Rightarrow> error + 'b list" where
  "for_each f [] = Inr []"
| "for_each f (x # xs) =
     and_then (f x) (\<lambda>y. and_then (for_each f xs) (\<lambda>ys. Inr (y # ys)))"

definition float_div :: "real \<Rightarrow> real \<Rightarrow> error + real" where
  "float_div a b = (if b = 0 then Inl ZeroDivisionError else Inr (a / b))"

text \<open>
  Python's \<open>x ** a\<close> on floats. On a positive base it is \<open>x powr a\<close>. On the other
  bases HOL's \<open>powr\<close> is not what Python computes (\<open>0 powr 0 = 0\<close>), so they are
  written out: \<open>0.0 ** 0.0 = 1.0\<close>, \<open>0.0 ** a = 0.0\<close> for positive \<open>a\<close>, an exception
  for negative \<open>a\<close>; a negative base has a real power only for a whole exponent.
\<close>

definition float_pow :: "real \<Rightarrow> real \<Rightarrow> error + real" where
  "float_pow x a =
     (if 0 < x then Inr (x powr a)
      else if x = 0 then
        (if a = 0 then Inr 1 else if 0 < a then Inr 0 else Inl ZeroDivisionError)
      else if of_int \<lfloor>a\<rfloor> = a then Inr (x powi \<lfloor>a\<rfloor>)
      else Inl NotReal)"

section \<open>The power law with floor\<close>

text \<open>
  \<open>power_law_spread\<close> of \<open>3_spread_model.py\<close> and \<open>5_combined_forecast.py\<close> (the two
  copies are the same text):
  \<^verbatim>\<open>return floor + (spread_ref - floor) * (bess_ref / bess_gw) ** alpha\<close>
  The failures are those of Python floats, which the loop of the composer passes in. On
  numpy scalars (the capacities of the scenario table and of the calibration table) the
  same inputs give \<open>inf\<close> or \<open>nan\<close> and a warning instead of an exception; there is no
  real result either way.
\<close>

definition power_law_spread :: "real \<Rightarrow> real \<Rightarrow> real \<Rightarrow> real \<Rightarrow> real \<Rightarrow> error + real" where
  "power_law_spread bess_gw floor' spread_ref bess_ref alpha =
     (case float_div bess_ref bess_gw of
        Inl e \<Rightarrow> Inl e
      | Inr q \<Rightarrow>
          (case float_pow q alpha of
             Inl e \<Rightarrow> Inl e
           | Inr p \<Rightarrow> Inr (floor' + (spread_ref - floor') * p)))"

section \<open>Dates, JSON values and table cells\<close>

datatype date = Date (date_year: int) (date_month: nat) (date_day: nat)

text \<open>\<open>dt.to_period("M")\<close>: the month a day lies in.\<close>

definition year_month :: "date \<Rightarrow> int \<times> nat" where
  "year_month d = (date_year d, date_month d)"

definition date_less :: "date \<Rightarrow> date \<Rightarrow> bool" where
  "date_less a b \<longleftrightarrow>
     date_year a < date_year b
     \<or> (date_year a = date_year b
        \<and> (date_month a < date_month b
           \<or> (date_month a = date_month b \<and> date_day a < date_day b)))"

text \<open>
  The parameter artifacts are JSON objects, loaded as dicts from string keys. Of the
  JSON values the model keeps numbers, strings, \<open>null\<close> and objects of numbers (the
  seasonal coefficients).
\<close>

datatype jsonv = Num real | Str string | Null | Obj "string \<rightharpoonup> real"

type_synonym artifact = "string \<rightharpoonup> jsonv"

text \<open>\<open>d[k]\<close> and \<open>d.get(k, default)\<close>.\<close>

definition item :: "artifact \<Rightarrow> string \<Rightarrow> error + jsonv" where
  "item d k = (case d k of None \<Rightarrow> Inl (KeyError k) | Some v \<Rightarrow> Inr v)"

definition dict_get :: "('k \<rightharpoonup> 'v) \<Rightarrow> 'k \<Rightarrow> 'v \<Rightarrow> 'v" where
  "dict_get d k dflt = (case d k of None \<Rightarrow> dflt | Some v \<Rightarrow> v)"

text \<open>
  An entry used as a number, or as an object, must be one: Python raises at the first
  formatting of, arithmetic on or method call of a value of another type (for an
  artifact entry all of these are \<open>TypeError\<close> here).
\<close>

definition as_num :: "jsonv \<Rightarrow> error + real" where
  "as_num v = (case v of Num x \<Rightarrow> Inr x | _ \<Rightarrow> Inl TypeError)"

definition as_obj :: "jsonv \<Rightarrow> error + (string \<rightharpoonup> real)" where
  "as_obj v = (case v of Obj m \<Rightarrow> Inr m | _ \<Rightarrow> Inl TypeError)"

text \<open>A cell of the forecast table: a date, a number, or \<open>None\<close>.\<close>

datatype cell = CDate date | CNum real | CNone

text \<open>\<open>mean()\<close> of pandas and \<open>np.mean\<close>: the mean of no values is \<open>nan\<close>.\<close>

definition series_mean :: "real list \<Rightarrow> error + real" where
  "series_mean xs = (if xs = [] then Inl NotReal else Inr (sum_list xs / real (length xs)))"

section \<open>Dataset merger\<close>

text \<open>
  \<open>load_and_merge\<close> of \<open>3_spread_model.py\<close>. A daily row holds the date and the spread
  and price columns of the file that was read (the Elexon file when it exists, the
  Agile-derived file otherwise); an empty CSV cell is \<open>None\<close>. The columns \<open>month\<close>,
  \<open>year\<close> and \<open>day_of_week\<close>, which the function adds last, are functions of the date
  and are left to the date. Of a file that has a header and no rows \<open>read_csv\<close> leaves
  the date column unparsed, and \<open>dt.to_period\<close> on it raises: first on the capacity
  table, then on the daily table.
\<close>

record daily_row =
  d_date :: date
  d_spread :: "real option"
  d_price :: "real option"

record bess_row =
  b_date :: date
  b_capacity_gw :: "real option"
  b_source :: string

record gen_row =
  g_date :: date
  g_wind_gen_gw :: "real option"

record panel_row =
  p_date :: date
  p_spread :: "real option"
  p_price :: "real option"
  p_bess_gw :: "real option"
  p_wind_gen_gw :: "real option"

text \<open>
  \<^verbatim>\<open>bess_lookup = bess[bess["source"] == "historic"].set_index("year_month")["bess_capacity_gw"]\<close>
  A Series: index values paired with capacities, in file order.
\<close>

definition bess_lookup :: "bess_row list \<Rightarrow> ((int \<times> nat) \<times> real option) list" where
  "bess_lookup bess =
     map (\<lambda>b. (year_month (b_date b), b_capacity_gw b))
       (filter (\<lambda>b. b_source b = ''historic'') bess)"

text \<open>
  \<open>keys.map(series)\<close>: each key is looked up in the index of the Series; a key that
  is not in the index gives \<open>NaN\<close>. An index with duplicates is refused.
\<close>

definition series_map :: "('k \<times> real option) list \<Rightarrow> 'k list \<Rightarrow> error + real option list" where
  "series_map series keys =
     (if distinct (map fst series)
      then Inr (map (\<lambda>k. case map_of series k of None \<Rightarrow> None | Some v \<Rightarrow> v) keys)
      else Inl InvalidIndexError)"

text \<open>
  \<^verbatim>\<open>pd.merge(spread, gen[["date", "wind_gen_gw"]], on="date", how="left")\<close>
  Every left row is kept, once for each generation row of its date, and once with an
  unknown generation when there is none.
\<close>

definition merge_wind :: "panel_row list \<Rightarrow> gen_row list \<Rightarrow> panel_row list" where
  "merge_wind rows gen =
     concat (map (\<lambda>r.
       case filter (\<lambda>g. g_date g = p_date r) gen of
         [] \<Rightarrow> [r\<lparr>p_wind_gen_gw := None\<rparr>]
       | gs \<Rightarrow> map (\<lambda>g. r\<lparr>p_wind_gen_gw := g_wind_gen_gw g\<rparr>) gs) rows)"

definition load_and_merge ::
  "daily_row list option \<Rightarrow> daily_row list \<Rightarrow> bess_row list \<Rightarrow> gen_row list option
   \<Rightarrow> error + (panel_row list \<times> string \<times> string)" where
  "load_and_merge elexon agile bess gen =
     (let (spread, spread_col, price_col) =
            (case elexon of
               Some e \<Rightarrow> (e, ''wholesale_spread'', ''wholesale_mean'')
             | None \<Rightarrow> (agile, ''spread_max_min'', ''price_mean''))
      in if bess = [] then Inl AttributeError
         else if spread = [] then Inl AttributeError
         else
           and_then (series_map (bess_lookup bess) (map (\<lambda>d. year_month (d_date d)) spread))
             (\<lambda>caps.
                let rows = map (\<lambda>(d, c). \<lparr>p_date = d_date d, p_spread = d_spread d,
                                  p_price = d_price d, p_bess_gw = c,
                                  p_wind_gen_gw = None\<rparr>) (zip spread caps);
                    merged = (case gen of Some g \<Rightarrow> merge_wind rows g | None \<Rightarrow> rows)
                in Inr (filter (\<lambda>r. p_bess_gw r \<noteq> None) merged, spread_col, price_col)))"

section \<open>Calibration\<close>

text \<open>
  \<open>calibrate_params\<close> of \<open>3_spread_model.py\<close>, without its printing. Of a monthly row
  it reads the mean capacity and the mean spread. The result is the dict it returns.
\<close>

record monthly_row =
  mo_bess_gw :: real
  mo_spread :: real

definition alpha_caiso :: real where "alpha_caiso = 65 / 100"
definition alpha_modo :: real where "alpha_modo = 46 / 100"
definition alpha_central :: real where "alpha_central = 50 / 100"

definition calibrate_params :: "monthly_row list \<Rightarrow> error + (string \<times> jsonv) list" where
  "calibrate_params monthly_data =
     (let recent = filter (\<lambda>r. 6 \<le> mo_bess_gw r) monthly_data;
          window = (if 6 \<le> length recent then recent
                    else drop (length monthly_data - 6) monthly_data);
          avg_price = 90;
          rt_efficiency_loss = 15 / 100;
          floor' = avg_price * rt_efficiency_loss
      in and_then (series_mean (map mo_spread window)) (\<lambda>spread_ref.
         and_then (series_mean (map mo_bess_gw window)) (\<lambda>bess_ref.
           Inr [(''model_type'', Str ''power_law_with_floor''),
                (''spread_ref'', Num spread_ref),
                (''bess_ref'', Num bess_ref),
                (''floor'', Num floor'),
                (''alpha'', Num alpha_central),
                (''alpha_low'', Num alpha_modo),
                (''alpha_high'', Num alpha_caiso)])))"

section \<open>Seasonal adjustment\<close>

text \<open>\<open>str\<close> of a natural number, for the f-string \<open>f"month_{month}"\<close>.\<close>

definition digit_char :: "nat \<Rightarrow> char" where
  "digit_char n = ''0123456789'' ! n"

function str_nat :: "nat \<Rightarrow> string" where
  "str_nat n = (if n < 10 then [digit_char n] else str_nat (n div 10) @ [digit_char (n mod 10)])"
  by pat_completeness auto
termination
  by (relation "measure (\<lambda>n. n)") auto

declare str_nat.simps [simp del]

definition month_key :: "nat \<Rightarrow> string" where
  "month_key m = ''month_'' @ str_nat m"

text \<open>
  \<open>seasonal_adjustment\<close> of \<open>5_combined_forecast.py\<close>. The mean is taken by numpy, so
  the difference of the effects is a numpy scalar, and its division by a zero
  \<open>spread_ref\<close> gives \<open>inf\<close> or \<open>nan\<close> instead of an exception.
\<close>

definition seasonal_adjustment :: "nat \<Rightarrow> (string \<rightharpoonup> real) \<Rightarrow> real \<Rightarrow> error + real" where
  "seasonal_adjustment month month_coefs spread_ref =
     (let month_effect = dict_get month_coefs (month_key month) 0;
          all_effects = [0] @ map (\<lambda>m. dict_get month_coefs (month_key m) 0) [2..<13]
      in and_then (series_mean all_effects) (\<lambda>avg_effect.
           if spread_ref = 0 then Inl NotReal
           else Inr (1 + (month_effect - avg_effect) / spread_ref)))"

section \<open>Wind projection\<close>

text \<open>
  \<open>project_wind_generation\<close> of \<open>5_combined_forecast.py\<close>. The renewables table is
  \<open>None\<close> when its file does not exist; a row of it holds the date and the installed
  wind capacity \<open>total_wind_gw\<close>.
\<close>

definition wind_cf :: "nat \<rightharpoonup> real" where
  "wind_cf = [1 \<mapsto> 38/100, 2 \<mapsto> 35/100, 3 \<mapsto> 32/100, 4 \<mapsto> 28/100, 5 \<mapsto> 25/100,
              6 \<mapsto> 22/100, 7 \<mapsto> 22/100, 8 \<mapsto> 24/100, 9 \<mapsto> 28/100, 10 \<mapsto> 32/100,
              11 \<mapsto> 36/100, 12 \<mapsto> 38/100]"

text \<open>\<open>ren["date"].max()\<close>; the maximum of no dates is \<open>NaT\<close>.\<close>

definition max_date :: "date list \<Rightarrow> error + date" where
  "max_date ds =
     (case ds of
        [] \<Rightarrow> Inl NotReal
      | d # rest \<Rightarrow> Inr (foldl (\<lambda>a b. if date_less a b then b else a) d rest))"

definition project_wind_generation ::
  "(date \<times> real) list option \<Rightarrow> date list \<Rightarrow> error + (date \<times> real) list" where
  "project_wind_generation ren forecast_dates =
     (case ren of
        Some rows \<Rightarrow>
          (if rows = [] then Inl IndexError
           else
             let latest = last rows;
                 wind_growth_gw_month = (15/10) / 12
             in and_then (max_date (map fst rows)) (\<lambda>latest_date.
                  Inr (map (\<lambda>d.
                     let months_ahead =
                           (date_year d - date_year latest_date) * 12
                           + (int (date_month d) - int (date_month latest_date));
                         wind_cap = snd latest + wind_growth_gw_month * real_of_int months_ahead;
                         wind_gen = wind_cap * dict_get wind_cf (date_month d) (30/100)
                     in (d, wind_gen)) forecast_dates)))
      | None \<Rightarrow> Inr (map (\<lambda>d. (d, 68/10)) forecast_dates))"

section \<open>Combined forecast\<close>

text \<open>
  One pass of the loop over the rows of the capacity forecast in \<open>main\<close> of
  \<open>5_combined_forecast.py\<close>: the dict appended to \<open>results\<close>. A scenario row is
  (scenario, date, capacity); the scenario table is \<open>None\<close> when its file does not exist.
\<close>

definition scenario_spread ::
  "string \<Rightarrow> (string \<times> date \<times> real) list option \<Rightarrow> date
   \<Rightarrow> real \<Rightarrow> real \<Rightarrow> real \<Rightarrow> real \<Rightarrow> real \<Rightarrow> error + cell" where
  "scenario_spread name scenarios d floor' spread_ref bess_ref alpha season_mult =
     (case scenarios of
        None \<Rightarrow> Inr CNone
      | Some sc \<Rightarrow>
          (case filter (\<lambda>(s, d', c). s = name \<and> d' = d) sc of
             [] \<Rightarrow> Inr CNone
           | (s, d', c) # _ \<Rightarrow>
               and_then (power_law_spread c floor' spread_ref bess_ref alpha) (\<lambda>annual.
                 Inr (CNum (max (annual * season_mult) 0)))))"

definition forecast_row ::
  "real \<Rightarrow> real \<Rightarrow> real \<Rightarrow> real \<Rightarrow> (string \<rightharpoonup> real) \<Rightarrow> real
   \<Rightarrow> (string \<times> date \<times> real) list option \<Rightarrow> (date \<times> real) list
   \<Rightarrow> date \<times> real \<Rightarrow> error + (string \<times> cell) list" where
  "forecast_row floor' spread_ref bess_ref alpha month_coefs price_multiplier
       scenarios wind_proj bess_row =
     (let d = fst bess_row;
          bess_gw = snd bess_row;
          month = date_month d;
          wind_gen = (case filter (\<lambda>w. fst w = d) wind_proj of
                        [] \<Rightarrow> 68/10 | w # _ \<Rightarrow> snd w)
      in and_then (power_law_spread bess_gw floor' spread_ref bess_ref alpha) (\<lambda>ws_annual.
         and_then (seasonal_adjustment month month_coefs spread_ref) (\<lambda>season_mult.
           let ws = max (ws_annual * season_mult) 0;
               agile_spread = price_multiplier * ws;
               agile_spread_p_kwh = agile_spread / 10
           in and_then (scenario_spread ''leading_the_way'' scenarios d
                          floor' spread_ref bess_ref alpha season_mult) (\<lambda>ws_leading.
              and_then (scenario_spread ''falling_short'' scenarios d
                          floor' spread_ref bess_ref alpha season_mult) (\<lambda>ws_falling.
                Inr [(''date'', CDate d),
                     (''bess_gw'', CNum bess_gw),
                     (''wind_gen_gw'', CNum wind_gen),
                     (''wholesale_spread_mwh'', CNum ws),
                     (''agile_spread_mwh'', CNum agile_spread),
                     (''agile_spread_p_kwh'', CNum agile_spread_p_kwh),
                     (''spread_leading_the_way'', ws_leading),
                     (''spread_falling_short'', ws_falling)])))))"

text \<open>
  \<open>main\<close> of \<open>5_combined_forecast.py\<close> up to the forecast table it saves as
  \<open>five_year_forecast.csv\<close>. Its inputs are the two parameter artifacts, the capacity
  forecast (date and capacity of each month), the scenario table and the renewables
  table. The six subscripts come first. The printed summary then formats the floor,
  the reference point, the price multiplier and the price adder as numbers, and reads
  the first and the last capacity of the forecast. The elasticity and the seasonal
  coefficients are first used in the first pass of the loop.
\<close>

definition combined_forecast_main ::
  "artifact \<Rightarrow> artifact \<Rightarrow> (date \<times> real) list
   \<Rightarrow> (string \<times> date \<times> real) list option \<Rightarrow> (date \<times> real) list option
   \<Rightarrow> error + (string \<times> cell) list list" where
  "combined_forecast_main spread_params tariff_params bess scenarios ren =
     and_then (item spread_params ''floor'') (\<lambda>floor_v.
     and_then (item spread_params ''spread_ref'') (\<lambda>spread_ref_v.
     and_then (item spread_params ''bess_ref'') (\<lambda>bess_ref_v.
     and_then (item spread_params ''alpha'') (\<lambda>alpha_v.
     and_then (item spread_params ''alpha_low'') (\<lambda>alpha_low_v.
     and_then (item spread_params ''alpha_high'') (\<lambda>alpha_high_v.
       let month_coefs_v = dict_get spread_params ''month_coefs'' (Obj Map.empty);
           price_multiplier_v = dict_get tariff_params ''price_multiplier'' (Num (131/100))
       in
     and_then (as_num floor_v) (\<lambda>floor'.
     and_then (as_num spread_ref_v) (\<lambda>spread_ref.
     and_then (as_num bess_ref_v) (\<lambda>bess_ref.
     and_then (as_num price_multiplier_v) (\<lambda>price_multiplier.
     and_then (as_num (dict_get tariff_params ''price_adder_mwh'' (Num 65))) (\<lambda>price_adder.
       if bess = [] then Inl IndexError
       else
     and_then (project_wind_generation ren (map fst bess)) (\<lambda>wind_proj.
     and_then (as_num alpha_v) (\<lambda>alpha.
     and_then (as_obj month_coefs_v) (\<lambda>month_coefs.
       for_each (forecast_row floor' spread_ref bess_ref alpha month_coefs
                   price_multiplier scenarios wind_proj) bess))))))))))))))"

text \<open>
  The elasticity band of the sensitivity plot, computed in \<open>main\<close> after the table has
  been saved: for \<open>a\<close> in \<open>alpha_low\<close>, \<open>alpha_high\<close>, the list \<open>spreads\<close> over the rows of
  the forecast. It is handed to the plot and to nothing else.
\<close>

definition band_spreads ::
  "real \<Rightarrow> real \<Rightarrow> real \<Rightarrow> (string \<rightharpoonup> real) \<Rightarrow> real \<Rightarrow> (date \<times> real) list
   \<Rightarrow> error + real list" where
  "band_spreads floor' spread_ref bess_ref month_coefs a forecast =
     for_each (\<lambda>row.
       and_then (power_law_spread (snd row) floor' spread_ref bess_ref a) (\<lambda>s_ann.
       and_then (seasonal_adjustment (date_month (fst row)) month_coefs spread_ref) (\<lambda>s_mult.
         Inr (max (s_ann * s_mult) 0)))) forecast"

section \<open>Tariff pass-through model\<close>

text \<open>
  \<open>main\<close> of \<open>4_tariff_model.py\<close> up to the parameter dict it saves as
  \<open>tariff_model_params.json\<close>. The Elexon table is \<open>None\<close> when its file does not
  exist. The regression is the library's (\<open>sm.OLS(y, sm.add_constant(x)).fit\<close>); the
  model takes it as the parameter \<open>ols\<close>, from the observations (x, y) to the fitted
  slope, constant and R squared, or to a failure. The dash in the note of the source
  is written as a hyphen here.
\<close>

record agile_day =
  a_date :: date
  spread_max_min :: "real option"
  price_mean :: "real option"
  price_max :: "real option"
  price_min :: "real option"

record elexon_day =
  e_date :: date
  wholesale_spread :: "real option"
  wholesale_mean :: "real option"

record ols_result =
  slope :: real
  const :: real
  rsquared :: real

text \<open>
  \<^verbatim>\<open>pd.merge(agile[[...]], elexon[[...]], on="date", how="inner").dropna()\<close>
  The pairs of an Agile day and an Elexon day of the same date with no empty cell; of
  a pair the regressions read the four numbers (wholesale spread, Agile spread,
  wholesale mean, Agile mean).
\<close>

definition overlap :: "agile_day list \<Rightarrow> elexon_day list \<Rightarrow> (real \<times> real \<times> real \<times> real) list" where
  "overlap agile elexon =
     concat (map (\<lambda>a. concat (map (\<lambda>e.
       if a_date a = e_date e then
         (case (spread_max_min a, price_mean a, price_max a, price_min a,
                wholesale_spread e, wholesale_mean e) of
            (Some s, Some p, Some _, Some _, Some ws, Some wm) \<Rightarrow> [(ws, s, wm, p)]
          | _ \<Rightarrow> [])
       else []) elexon)) agile)"

definition tariff_model_main ::
  "((real \<times> real) list \<Rightarrow> error + ols_result)
   \<Rightarrow> agile_day list \<Rightarrow> elexon_day list option \<Rightarrow> error + (string \<times> jsonv) list" where
  "tariff_model_main ols agile elexon =
     (case elexon of
        Some ex \<Rightarrow>
          (let merged = overlap agile ex
           in and_then (ols (map (\<lambda>(ws, s, wm, p). (ws, s)) merged)) (\<lambda>model.
              and_then (ols (map (\<lambda>(ws, s, wm, p). (wm, p)) merged)) (\<lambda>model2.
                Inr [(''spread_multiplier'', Num (slope model)),
                     (''spread_intercept'', Num (const model)),
                     (''spread_r_squared'', Num (rsquared model)),
                     (''price_multiplier'', Num (slope model2)),
                     (''price_adder_mwh'', Num (const model2)),
                     (''price_r_squared'', Num (rsquared model2)),
                     (''n_obs'', Num (real (length merged)))])))
      | None \<Rightarrow>
          Inr [(''spread_multiplier'', Num 1),
               (''spread_intercept'', Num 0),
               (''spread_r_squared'', Null),
               (''price_multiplier'', Num 1),
               (''price_adder_mwh'', Num 0),
               (''price_r_squared'', Null),
               (''n_obs'', Num (real (length agile))),
               (''note'', Str ''No Elexon cross-validation available - using Agile prices as direct proxy'')])"

section \<open>Example inputs\<close>

text \<open>Concrete inputs, used where a statement is shown at an instance.\<close>

abbreviation example_spread_params :: artifact where
  "example_spread_params \<equiv>
     [''floor'' \<mapsto> Num (27/2), ''spread_ref'' \<mapsto> Num 120, ''bess_ref'' \<mapsto> Num (13/2),
      ''alpha'' \<mapsto> Num (1/2), ''alpha_low'' \<mapsto> Num (23/50), ''alpha_high'' \<mapsto> Num (13/20)]"

abbreviation example_bess :: "(date \<times> real) list" where
  "example_bess \<equiv> [(Date 2026 1 1, 26)]"

abbreviation example_scenarios :: "(string \<times> date \<times> real) list" where
  "example_scenarios \<equiv>
     [(''leading_the_way'', Date 2026 1 1, 104), (''falling_short'', Date 2026 1 1, 13/2)]"

abbreviation example_row :: "real \<Rightarrow> (string \<times> cell) list" where
  "example_row pm \<equiv>
     [(''date'', CDate (Date 2026 1 1)),
      (''bess_gw'', CNum 26),
      (''wind_gen_gw'', CNum (68/10)),
      (''wholesale_spread_mwh'', CNum (267/4)),
      (''agile_spread_mwh'', CNum (pm * (267/4))),
      (''agile_spread_p_kwh'', CNum (pm * (267/4) / 10)),
      (''spread_leading_the_way'', CNum (321/8)),
      (''spread_falling_short'', CNum 120)]"

abbreviation example_tariff_params :: artifact where
  "example_tariff_params \<equiv>
     [''spread_multiplier'' \<mapsto> Num 2, ''spread_intercept'' \<mapsto> Num 5,
      ''price_multiplier'' \<mapsto> Num 3, ''price_adder_mwh'' \<mapsto> Num 65]"

abbreviation example_capacity :: "bess_row list" where
  "example_capacity \<equiv>
     [\<lparr>b_date = Date 2025 12 1, b_capacity_gw = Some (13/2), b_source = ''historic''\<rparr>,
      \<lparr>b_date = Date 2026 1 1, b_capacity_gw = Some (15/2),
        b_source = ''fes_system_transformation''\<rparr>]"

abbreviation example_daily :: "daily_row list" where
  "example_daily \<equiv>
     [\<lparr>d_date = Date 2025 12 15, d_spread = Some 85, d_price = Some 95\<rparr>,
      \<lparr>d_date = Date 2026 1 15, d_spread = Some 80, d_price = Some 90\<rparr>]"

abbreviation example_agile :: "agile_day list" where
  "example_agile \<equiv>
     [\<lparr>a_date = Date 2026 1 15, spread_max_min = Some 150, price_mean = Some 200,
       price_max = Some 300, price_min = Some 150\<rparr>]"

abbreviation example_elexon :: "elexon_day list" where
  "example_elexon \<equiv>
     [\<lparr>e_date = Date 2025 6 15, wholesale_spread = Some 80, wholesale_mean = Some 90\<rparr>]"

abbreviation example_ols :: "(real \<times> real) list \<Rightarrow> error + ols_result" where
  "example_ols \<equiv> (\<lambda>obs. Inr \<lparr>slope = 131/100, const = 2, rsquared = 9/10\<rparr>)"

section \<open>Elasticity ordering\<close>

lemma float_pow_nonneg:
  "0 \<le> q \<Longrightarrow> 0 < a \<Longrightarrow> float_pow q a = Inr (q powr a)"
  by (simp add: float_pow_def)

lemma power_law_spread_nonneg:
  assumes "0 < C" and "0 \<le> bess_ref" and "0 < a"
  shows "power_law_spread C floor' spread_ref bess_ref a =
    Inr (floor' + (spread_ref - floor') * (bess_ref / C) powr a)"
  using assms by (simp add: power_law_spread_def float_div_def float_pow_nonneg)

text \<open>The elasticities in the dict of the calibration are the three constants.\<close>

lemma calibrate_params_alphas:
  assumes "calibrate_params monthly_data = Inr params"
  shows "map_of params ''alpha'' = Some (Num alpha_central)
    \<and> map_of params ''alpha_low'' = Some (Num alpha_modo)
    \<and> map_of params ''alpha_high'' = Some (Num alpha_caiso)"
  using assms
  by (auto simp: calibrate_params_def Let_def and_then_def split: sum.splits)

text \<open>
  C4 (elasticity ordering). For a reference capacity that is not negative, every capacity
  above it and a reference spread above the floor, the power law returns a spread for
  each of the three elasticities of the calibration (0.65, 0.50, 0.46), and the spread
  with the higher elasticity is at most the spread with the lower one.
\<close>

theorem elasticity_ordering:
  assumes "0 \<le> bess_ref" and "bess_ref < C" and "floor' < spread_ref"
  shows "\<exists>hi ce lo.
      power_law_spread C floor' spread_ref bess_ref alpha_caiso = Inr hi
    \<and> power_law_spread C floor' spread_ref bess_ref alpha_central = Inr ce
    \<and> power_law_spread C floor' spread_ref bess_ref alpha_modo = Inr lo
    \<and> hi \<le> ce \<and> ce \<le> lo"
proof -
  let ?q = "bess_ref / C"
  have C: "0 < C" using assms by simp
  have q: "0 \<le> ?q" "?q \<le> 1" using assms by simp_all
  have "?q powr alpha_caiso \<le> ?q powr alpha_central"
    using q by (intro powr_mono') (simp_all add: alpha_caiso_def alpha_central_def)
  moreover have "?q powr alpha_central \<le> ?q powr alpha_modo"
    using q by (intro powr_mono') (simp_all add: alpha_modo_def alpha_central_def)
  ultimately have "(spread_ref - floor') * ?q powr alpha_caiso
        \<le> (spread_ref - floor') * ?q powr alpha_central"
    and "(spread_ref - floor') * ?q powr alpha_central
        \<le> (spread_ref - floor') * ?q powr alpha_modo"
    using \<open>floor' < spread_ref\<close> by (simp_all add: mult_left_mono)
  moreover have "0 < alpha_caiso" "0 < alpha_central" "0 < alpha_modo"
    by (simp_all add: alpha_caiso_def alpha_central_def alpha_modo_def)
  ultimately show ?thesis
    using C assms(1) by (simp add: power_law_spread_nonneg)
qed

theorem elasticity_ordering_witness:
  "\<exists>hi ce lo.
      power_law_spread 13 (27/2) 120 (13/2) alpha_caiso = Inr hi
    \<and> power_law_spread 13 (27/2) 120 (13/2) alpha_central = Inr ce
    \<and> power_law_spread 13 (27/2) 120 (13/2) alpha_modo = Inr lo
    \<and> hi \<le> ce \<and> ce \<le> lo"
  using elasticity_ordering [of "13/2" 13 "27/2" 120] by simp

section \<open>The combined forecast\<close>

subsection \<open>How a successful run is built\<close>

lemma and_then_Inr:
  "and_then r f = Inr y \<longleftrightarrow> (\<exists>x. r = Inr x \<and> f x = Inr y)"
  by (cases r) (simp_all add: and_then_def)

lemma for_each_Inr:
  "for_each f xs = Inr ys \<Longrightarrow> list_all2 (\<lambda>x y. f x = Inr y) xs ys"
proof (induction xs arbitrary: ys)
  case Nil
  then show ?case by simp
next
  case (Cons x xs)
  then show ?case by (auto simp: and_then_Inr)
qed

lemma for_each_row:
  assumes "for_each f xs = Inr ys" and "y \<in> set ys"
  shows "\<exists>x \<in> set xs. f x = Inr y"
proof -
  from assms(2) obtain i where "i < length ys" and "y = ys ! i"
    by (auto simp: in_set_conv_nth)
  with for_each_Inr [OF assms(1)] have "i < length xs" and "f (xs ! i) = Inr y"
    by (simp_all add: list_all2_conv_all_nth)
  then show ?thesis
    using nth_mem by blast
qed

lemma for_each_length:
  "for_each f xs = Inr ys \<Longrightarrow> length ys = length xs"
  by (drule for_each_Inr) (simp add: list_all2_lengthD)

lemma forecast_row_Inr:
  assumes "forecast_row floor' spread_ref bess_ref alpha month_coefs price_multiplier
             scenarios wind_proj br = Inr row"
  shows "\<exists>ws_annual season_mult wind_gen ws_leading ws_falling.
      power_law_spread (snd br) floor' spread_ref bess_ref alpha = Inr ws_annual
    \<and> seasonal_adjustment (date_month (fst br)) month_coefs spread_ref = Inr season_mult
    \<and> scenario_spread ''leading_the_way'' scenarios (fst br)
          floor' spread_ref bess_ref alpha season_mult = Inr ws_leading
    \<and> scenario_spread ''falling_short'' scenarios (fst br)
          floor' spread_ref bess_ref alpha season_mult = Inr ws_falling
    \<and> row = [(''date'', CDate (fst br)),
              (''bess_gw'', CNum (snd br)),
              (''wind_gen_gw'', CNum wind_gen),
              (''wholesale_spread_mwh'', CNum (max (ws_annual * season_mult) 0)),
              (''agile_spread_mwh'', CNum (price_multiplier * max (ws_annual * season_mult) 0)),
              (''agile_spread_p_kwh'',
                 CNum (price_multiplier * max (ws_annual * season_mult) 0 / 10)),
              (''spread_leading_the_way'', ws_leading),
              (''spread_falling_short'', ws_falling)]"
  using assms unfolding forecast_row_def Let_def and_then_Inr by blast

lemma as_num_Inr: "as_num v = Inr x \<longleftrightarrow> v = Num x"
  by (cases v) (simp_all add: as_num_def)

lemma as_obj_Inr: "as_obj v = Inr m \<longleftrightarrow> v = Obj m"
  by (cases v) (simp_all add: as_obj_def)

lemma item_Inr: "item d k = Inr v \<longleftrightarrow> d k = Some v"
  by (cases "d k") (simp_all add: item_def)

lemma combined_forecast_main_Inr:
  assumes "combined_forecast_main spread_params tariff_params bess scenarios ren = Inr rows"
  shows "\<exists>floor' spread_ref bess_ref alpha month_coefs price_multiplier wind_proj.
      spread_params ''floor'' = Some (Num floor')
    \<and> spread_params ''spread_ref'' = Some (Num spread_ref)
    \<and> spread_params ''bess_ref'' = Some (Num bess_ref)
    \<and> spread_params ''alpha'' = Some (Num alpha)
    \<and> dict_get spread_params ''month_coefs'' (Obj Map.empty) = Obj month_coefs
    \<and> dict_get tariff_params ''price_multiplier'' (Num (131/100)) = Num price_multiplier
    \<and> for_each (forecast_row floor' spread_ref bess_ref alpha month_coefs
                   price_multiplier scenarios wind_proj) bess = Inr rows"
  using assms unfolding combined_forecast_main_def Let_def
  by (auto simp: and_then_Inr as_num_Inr as_obj_Inr item_Inr split: if_splits)


subsection \<open>A run on an example\<close>

text \<open>
  One forecast month at 26 GW with the calibrated parameters (floor 13.5, reference
  point 120 at 6.5 GW, elasticity 0.5), no seasonal coefficients, both scenarios
  present and no renewables table.
\<close>

lemma example_power_law:
  "power_law_spread 26 (27/2) 120 (13/2) (1/2) = Inr (267/4)"
  "power_law_spread 104 (27/2) 120 (13/2) (1/2) = Inr (321/8)"
  "power_law_spread (13/2) (27/2) 120 (13/2) (1/2) = Inr 120"
proof -
  have "(1/4::real) powr (1/2) = 1/2"
    by (simp add: powr_half_sqrt real_sqrt_divide)
  moreover have "(1/16::real) powr (1/2) = 1/4"
  proof -
    have "sqrt (16::real) = 4"
      using real_sqrt_abs [of 4] by simp
    then show ?thesis
      by (simp add: powr_half_sqrt real_sqrt_divide)
  qed
  ultimately show "power_law_spread 26 (27/2) 120 (13/2) (1/2) = Inr (267/4)"
    and "power_law_spread 104 (27/2) 120 (13/2) (1/2) = Inr (321/8)"
    and "power_law_spread (13/2) (27/2) 120 (13/2) (1/2) = Inr 120"
    by (simp_all add: power_law_spread_def float_div_def float_pow_def and_then_def)
qed

lemma example_season:
  "seasonal_adjustment m Map.empty 120 = Inr 1"
  by (simp add: seasonal_adjustment_def series_mean_def and_then_def dict_get_def)

lemma example_run:
  assumes "dict_get tariff_params ''price_multiplier'' (Num (131/100)) = Num pm"
    and "dict_get tariff_params ''price_adder_mwh'' (Num 65) = Num adder"
  shows "combined_forecast_main example_spread_params tariff_params example_bess
           (Some example_scenarios) None =
         Inr [example_row pm]"
  using assms
  by (simp add: combined_forecast_main_def item_def as_num_def as_obj_def and_then_def
      dict_get_def [of example_spread_params] project_wind_generation_def forecast_row_def
      scenario_spread_def example_power_law example_season Let_def)


subsection \<open>The pass-through step\<close>

text \<open>
  C6 (pass-through step of the composer), as amended. In every row of a forecast table
  that the composer produces, the wholesale spread is the power law at the capacity of
  the month with the central elasticity, times the seasonal factor of the month,
  clamped at zero; the tariff spread is this wholesale spread times the
  \<open>price_multiplier\<close> entry of the pass-through artifact (1.31 when the entry is
  absent); and the row also holds the tariff spread divided by 10. The entries
  \<open>spread_multiplier\<close> and \<open>spread_intercept\<close> of the artifact are not read.
\<close>

theorem tariff_spread_is_price_multiple:
  assumes "combined_forecast_main spread_params tariff_params bess scenarios ren = Inr rows"
    and "row \<in> set rows"
  shows "\<exists>floor' spread_ref bess_ref alpha month_coefs price_multiplier d bess_gw
      ws_annual season_mult ws.
      spread_params ''floor'' = Some (Num floor')
    \<and> spread_params ''spread_ref'' = Some (Num spread_ref)
    \<and> spread_params ''bess_ref'' = Some (Num bess_ref)
    \<and> spread_params ''alpha'' = Some (Num alpha)
    \<and> dict_get spread_params ''month_coefs'' (Obj Map.empty) = Obj month_coefs
    \<and> dict_get tariff_params ''price_multiplier'' (Num (131/100)) = Num price_multiplier
    \<and> (d, bess_gw) \<in> set bess
    \<and> power_law_spread bess_gw floor' spread_ref bess_ref alpha = Inr ws_annual
    \<and> seasonal_adjustment (date_month d) month_coefs spread_ref = Inr season_mult
    \<and> ws = max (ws_annual * season_mult) 0
    \<and> map_of row ''date'' = Some (CDate d)
    \<and> map_of row ''wholesale_spread_mwh'' = Some (CNum ws)
    \<and> map_of row ''agile_spread_mwh'' = Some (CNum (price_multiplier * ws))
    \<and> map_of row ''agile_spread_p_kwh'' = Some (CNum (price_multiplier * ws / 10))"
proof -
  from combined_forecast_main_Inr [OF assms(1)]
  obtain floor' spread_ref bess_ref alpha month_coefs price_multiplier wind_proj where
    params: "spread_params ''floor'' = Some (Num floor')"
      "spread_params ''spread_ref'' = Some (Num spread_ref)"
      "spread_params ''bess_ref'' = Some (Num bess_ref)"
      "spread_params ''alpha'' = Some (Num alpha)"
      "dict_get spread_params ''month_coefs'' (Obj Map.empty) = Obj month_coefs"
      "dict_get tariff_params ''price_multiplier'' (Num (131/100)) = Num price_multiplier"
    and loop: "for_each (forecast_row floor' spread_ref bess_ref alpha month_coefs
                   price_multiplier scenarios wind_proj) bess = Inr rows"
    by blast
  from for_each_row [OF loop assms(2)]
  obtain br where br: "br \<in> set bess"
    and row: "forecast_row floor' spread_ref bess_ref alpha month_coefs
                price_multiplier scenarios wind_proj br = Inr row"
    by blast
  from forecast_row_Inr [OF row]
  obtain ws_annual season_mult wind_gen ws_leading ws_falling where
    annual: "power_law_spread (snd br) floor' spread_ref bess_ref alpha = Inr ws_annual"
    and mult: "seasonal_adjustment (date_month (fst br)) month_coefs spread_ref = Inr season_mult"
    and cells: "row = [(''date'', CDate (fst br)),
              (''bess_gw'', CNum (snd br)),
              (''wind_gen_gw'', CNum wind_gen),
              (''wholesale_spread_mwh'', CNum (max (ws_annual * season_mult) 0)),
              (''agile_spread_mwh'', CNum (price_multiplier * max (ws_annual * season_mult) 0)),
              (''agile_spread_p_kwh'',
                 CNum (price_multiplier * max (ws_annual * season_mult) 0 / 10)),
              (''spread_leading_the_way'', ws_leading),
              (''spread_falling_short'', ws_falling)]"
    by blast
  have "(fst br, snd br) \<in> set bess"
    using br by simp
  moreover have "map_of row ''date'' = Some (CDate (fst br))"
    and "map_of row ''wholesale_spread_mwh'' = Some (CNum (max (ws_annual * season_mult) 0))"
    and "map_of row ''agile_spread_mwh''
          = Some (CNum (price_multiplier * max (ws_annual * season_mult) 0))"
    and "map_of row ''agile_spread_p_kwh''
          = Some (CNum (price_multiplier * max (ws_annual * season_mult) 0 / 10))"
    unfolding cells by simp_all
  ultimately show ?thesis
    using params annual mult by blast
qed

theorem tariff_spread_is_price_multiple_witness:
  "\<exists>floor' spread_ref bess_ref alpha month_coefs price_multiplier d bess_gw
      ws_annual season_mult ws.
      example_spread_params ''floor'' = Some (Num floor')
    \<and> example_spread_params ''spread_ref'' = Some (Num spread_ref)
    \<and> example_spread_params ''bess_ref'' = Some (Num bess_ref)
    \<and> example_spread_params ''alpha'' = Some (Num alpha)
    \<and> dict_get example_spread_params ''month_coefs'' (Obj Map.empty) = Obj month_coefs
    \<and> dict_get example_tariff_params ''price_multiplier'' (Num (131/100)) = Num price_multiplier
    \<and> (d, bess_gw) \<in> set example_bess
    \<and> power_law_spread bess_gw floor' spread_ref bess_ref alpha = Inr ws_annual
    \<and> seasonal_adjustment (date_month d) month_coefs spread_ref = Inr season_mult
    \<and> ws = max (ws_annual * season_mult) 0
    \<and> map_of (example_row 3) ''date'' = Some (CDate d)
    \<and> map_of (example_row 3) ''wholesale_spread_mwh'' = Some (CNum ws)
    \<and> map_of (example_row 3) ''agile_spread_mwh'' = Some (CNum (price_multiplier * ws))
    \<and> map_of (example_row 3) ''agile_spread_p_kwh'' = Some (CNum (price_multiplier * ws / 10))"
proof -
  have run: "combined_forecast_main example_spread_params example_tariff_params example_bess
      (Some example_scenarios) None = Inr [example_row 3]"
    by (rule example_run [where adder = 65]) (simp_all add: dict_get_def)
  show ?thesis
    by (rule tariff_spread_is_price_multiple [OF run]) simp
qed

text \<open>
  With a spread multiplier of 2, a spread intercept of 5 and a price multiplier of 3 in
  the pass-through artifact, the tariff spread of the row is 3 times its wholesale
  spread, not 2 times the wholesale spread plus 5.
\<close>

theorem pass_through_counterexample:
  "combined_forecast_main example_spread_params example_tariff_params example_bess
        (Some example_scenarios) None = Inr [example_row 3]
    \<and> example_tariff_params ''spread_multiplier'' = Some (Num 2)
    \<and> example_tariff_params ''spread_intercept'' = Some (Num 5)
    \<and> map_of (example_row 3) ''wholesale_spread_mwh'' = Some (CNum (267/4))
    \<and> map_of (example_row 3) ''agile_spread_mwh'' = Some (CNum (801/4))
    \<and> (801/4 :: real) \<noteq> 2 * (267/4) + 5"
proof -
  have run: "combined_forecast_main example_spread_params example_tariff_params example_bess
      (Some example_scenarios) None = Inr [example_row 3]"
    by (rule example_run [where adder = 65]) (simp_all add: dict_get_def)
  show ?thesis
    unfolding run by simp
qed

subsection \<open>The columns of the forecast table\<close>

text \<open>
  C7 (contents of the forecast table), as amended. The forecast table that the composer
  saves has one row for each month of the capacity forecast, and every row has exactly
  the columns date, capacity, wind generation, base-case wholesale spread, tariff spread
  in the two unit conventions, and the two scenario spreads (leading the way, falling
  short). There is no column for the elasticity band.
\<close>

theorem forecast_table_columns:
  assumes "combined_forecast_main spread_params tariff_params bess scenarios ren = Inr rows"
  shows "length rows = length bess
    \<and> (\<forall>row \<in> set rows.
          map fst row =
            [''date'', ''bess_gw'', ''wind_gen_gw'', ''wholesale_spread_mwh'',
             ''agile_spread_mwh'', ''agile_spread_p_kwh'',
             ''spread_leading_the_way'', ''spread_falling_short''])"
proof -
  from combined_forecast_main_Inr [OF assms]
  obtain floor' spread_ref bess_ref alpha month_coefs price_multiplier wind_proj where
    loop: "for_each (forecast_row floor' spread_ref bess_ref alpha month_coefs
                   price_multiplier scenarios wind_proj) bess = Inr rows"
    by blast
  have "map fst row =
            [''date'', ''bess_gw'', ''wind_gen_gw'', ''wholesale_spread_mwh'',
             ''agile_spread_mwh'', ''agile_spread_p_kwh'',
             ''spread_leading_the_way'', ''spread_falling_short'']"
    if "row \<in> set rows" for row
  proof -
    from for_each_row [OF loop that]
    obtain br where "forecast_row floor' spread_ref bess_ref alpha month_coefs
                price_multiplier scenarios wind_proj br = Inr row"
      by blast
    from forecast_row_Inr [OF this] show ?thesis
      by auto
  qed
  then show ?thesis
    using for_each_length [OF loop] by blast
qed

theorem forecast_table_columns_witness:
  "length [example_row 3] = length example_bess
    \<and> map fst (example_row 3) =
          [''date'', ''bess_gw'', ''wind_gen_gw'', ''wholesale_spread_mwh'',
           ''agile_spread_mwh'', ''agile_spread_p_kwh'',
           ''spread_leading_the_way'', ''spread_falling_short'']"
proof -
  have run: "combined_forecast_main example_spread_params example_tariff_params example_bess
      (Some example_scenarios) None = Inr [example_row 3]"
    by (rule example_run [where adder = 65]) (simp_all add: dict_get_def)
  from forecast_table_columns [OF run] show ?thesis
    by simp
qed

text \<open>
  The elasticity band is computed after the table has been saved. In the example its two
  values for the month (about 69.8 with the low elasticity, about 56.8 with the high one)
  are in no cell of the row.
\<close>

lemma example_band:
  "band_spreads (27/2) 120 (13/2) Map.empty a example_bess =
     Inr [27/2 + (213/2) * (1/4) powr a]"
proof -
  have "0 \<le> (213/2) * (1/4::real) powr a"
    by simp
  then have "max (27/2 + (213/2) * (1/4) powr a) 0 = 27/2 + (213/2) * (1/4::real) powr a"
    by (intro max_absorb1) linarith
  then show ?thesis
    by (simp add: band_spreads_def power_law_spread_def float_div_def float_pow_def
        and_then_def example_season)
qed

theorem elasticity_band_counterexample:
  "combined_forecast_main example_spread_params example_tariff_params example_bess
        (Some example_scenarios) None = Inr [example_row 3]
    \<and> band_spreads (27/2) 120 (13/2) Map.empty (23/50) example_bess
          = Inr [27/2 + (213/2) * (1/4) powr (23/50)]
    \<and> band_spreads (27/2) 120 (13/2) Map.empty (13/20) example_bess
          = Inr [27/2 + (213/2) * (1/4) powr (13/20)]
    \<and> CNum (27/2 + (213/2) * (1/4) powr (23/50)) \<notin> snd ` set (example_row 3)
    \<and> CNum (27/2 + (213/2) * (1/4) powr (13/20)) \<notin> snd ` set (example_row 3)"
proof -
  define lo :: real where "lo = 27/2 + (213/2) * (1/4) powr (23/50)"
  define hi :: real where "hi = 27/2 + (213/2) * (1/4) powr (13/20)"
  have half: "(1/4::real) powr (1/2) = 1/2"
    by (simp add: powr_half_sqrt real_sqrt_divide)
  have "(1/4::real) powr (1/2) < (1/4) powr (23/50)"
    by (rule powr_less_mono') simp_all
  moreover have "(1/4::real) powr (23/50) < (1/4) powr 0"
    by (rule powr_less_mono') simp_all
  moreover have "(1/4::real) powr (13/20) < (1/4) powr (1/2)"
    by (rule powr_less_mono') simp_all
  moreover have "(1/4::real) powr 1 < (1/4) powr (13/20)"
    by (rule powr_less_mono') simp_all
  ultimately have lo: "267/4 < lo" "lo < 120" and hi: "321/8 < hi" "hi < 267/4"
    unfolding half lo_def hi_def by simp_all
  have run: "combined_forecast_main example_spread_params example_tariff_params example_bess
      (Some example_scenarios) None = Inr [example_row 3]"
    by (rule example_run [where adder = 65]) (simp_all add: dict_get_def)
  have "CNum lo \<notin> snd ` set (example_row 3)" and "CNum hi \<notin> snd ` set (example_row 3)"
    using lo hi by auto
  then show ?thesis
    unfolding run example_band lo_def [symmetric] hi_def [symmetric] by simp
qed


subsection \<open>Absent keys\<close>

lemma for_each_total:
  "(\<forall>x \<in> set xs. \<exists>y. f x = Inr y) \<Longrightarrow> \<exists>ys. for_each f xs = Inr ys"
  by (induction xs) (auto simp: and_then_def)

lemma for_each_nth:
  assumes "for_each f xs = Inr ys" and "i < length xs"
  shows "f (xs ! i) = Inr (ys ! i)"
  using for_each_Inr [OF assms(1)] assms(2) by (simp add: list_all2_conv_all_nth)

lemma seasonal_adjustment_total:
  "spread_ref \<noteq> 0 \<Longrightarrow> \<exists>s. seasonal_adjustment m month_coefs spread_ref = Inr s"
  by (simp add: seasonal_adjustment_def series_mean_def and_then_def)

lemma project_wind_generation_total:
  "ren \<noteq> Some [] \<Longrightarrow> \<exists>w. project_wind_generation ren dates = Inr w"
  by (cases ren) (auto simp: project_wind_generation_def max_date_def and_then_def Let_def
      split: list.splits)

lemma scenario_spread_total:
  assumes "\<forall>sc. scenarios = Some sc \<longrightarrow>
      (\<forall>(s, d, c) \<in> set sc. \<exists>v. power_law_spread c floor' spread_ref bess_ref alpha = Inr v)"
  shows "\<exists>cell. scenario_spread name scenarios d floor' spread_ref bess_ref alpha season_mult
      = Inr cell"
proof (cases scenarios)
  case None
  then show ?thesis by (simp add: scenario_spread_def)
next
  case (Some sc)
  show ?thesis
  proof (cases "filter (\<lambda>(s, d', c). s = name \<and> d' = d) sc")
    case Nil
    with Some show ?thesis by (simp add: scenario_spread_def)
  next
    case (Cons x xs)
    obtain s d' c where x: "x = (s, d', c)"
      by (cases x) auto
    from Cons have "x \<in> set (filter (\<lambda>(s, d', c). s = name \<and> d' = d) sc)"
      by simp
    then have "(s, d', c) \<in> set sc"
      using x by auto
    with assms Some obtain v where "power_law_spread c floor' spread_ref bess_ref alpha = Inr v"
      by fastforce
    with Some Cons x show ?thesis
      by (simp add: scenario_spread_def and_then_def)
  qed
qed

lemma forecast_row_total:
  assumes "power_law_spread (snd br) floor' spread_ref bess_ref alpha = Inr annual"
    and "seasonal_adjustment (date_month (fst br)) month_coefs spread_ref = Inr season"
    and "\<forall>sc. scenarios = Some sc \<longrightarrow>
      (\<forall>(s, d, c) \<in> set sc. \<exists>v. power_law_spread c floor' spread_ref bess_ref alpha = Inr v)"
  shows "\<exists>row. forecast_row floor' spread_ref bess_ref alpha month_coefs price_multiplier
      scenarios wind_proj br = Inr row"
proof -
  from scenario_spread_total [OF assms(3)]
  obtain l where "scenario_spread ''leading_the_way'' scenarios (fst br)
      floor' spread_ref bess_ref alpha season = Inr l"
    by blast
  moreover from scenario_spread_total [OF assms(3)]
  obtain f where "scenario_spread ''falling_short'' scenarios (fst br)
      floor' spread_ref bess_ref alpha season = Inr f"
    by blast
  ultimately show ?thesis
    using assms(1,2) by (simp add: forecast_row_def Let_def and_then_def)
qed


lemma combined_forecast_main_total:
  assumes keys: "spread_params ''floor'' = Some (Num floor')"
      "spread_params ''spread_ref'' = Some (Num spread_ref)"
      "spread_params ''bess_ref'' = Some (Num bess_ref)"
      "spread_params ''alpha'' = Some (Num alpha)"
      "spread_params ''alpha_low'' = Some (Num alpha_low)"
      "spread_params ''alpha_high'' = Some (Num alpha_high)"
    and coefs: "spread_params ''month_coefs'' = None \<and> month_coefs = Map.empty
           \<or> spread_params ''month_coefs'' = Some (Obj month_coefs)"
    and multiplier: "tariff_params ''price_multiplier'' = None \<and> price_multiplier = 131/100
           \<or> tariff_params ''price_multiplier'' = Some (Num price_multiplier)"
    and adder: "tariff_params ''price_adder_mwh'' = None
           \<or> tariff_params ''price_adder_mwh'' = Some (Num price_adder)"
    and tables: "bess \<noteq> []" "ren \<noteq> Some []"
    and ref: "spread_ref \<noteq> 0"
    and base: "\<forall>(d, c) \<in> set bess.
          \<exists>v. power_law_spread c floor' spread_ref bess_ref alpha = Inr v"
    and fan: "\<forall>sc. scenarios = Some sc \<longrightarrow>
          (\<forall>(s, d, c) \<in> set sc.
             \<exists>v. power_law_spread c floor' spread_ref bess_ref alpha = Inr v)"
  shows "\<exists>rows. combined_forecast_main spread_params tariff_params bess scenarios ren = Inr rows
      \<and> length rows = length bess
      \<and> (\<forall>i < length bess. \<exists>annual season.
            power_law_spread (snd (bess ! i)) floor' spread_ref bess_ref alpha = Inr annual
          \<and> seasonal_adjustment (date_month (fst (bess ! i))) month_coefs spread_ref = Inr season
          \<and> map_of (rows ! i) ''date'' = Some (CDate (fst (bess ! i)))
          \<and> map_of (rows ! i) ''wholesale_spread_mwh'' = Some (CNum (max (annual * season) 0))
          \<and> map_of (rows ! i) ''agile_spread_mwh''
              = Some (CNum (price_multiplier * max (annual * season) 0))
          \<and> map_of (rows ! i) ''agile_spread_p_kwh''
              = Some (CNum (price_multiplier * max (annual * season) 0 / 10)))"
proof -
  let ?row = "forecast_row floor' spread_ref bess_ref alpha month_coefs price_multiplier scenarios"
  from project_wind_generation_total [OF tables(2)]
  obtain wind_proj where wind: "project_wind_generation ren (map fst bess) = Inr wind_proj"
    by blast
  have mc: "dict_get spread_params ''month_coefs'' (Obj Map.empty) = Obj month_coefs"
    using coefs by (auto simp: dict_get_def)
  have pm: "dict_get tariff_params ''price_multiplier'' (Num (131/100)) = Num price_multiplier"
    using multiplier by (auto simp: dict_get_def)
  have ad: "\<exists>x. dict_get tariff_params ''price_adder_mwh'' (Num 65) = Num x"
    using adder by (auto simp: dict_get_def)
  have run: "combined_forecast_main spread_params tariff_params bess scenarios ren =
      for_each (?row wind_proj) bess"
    using keys mc pm ad tables(1) wind
    by (auto simp: combined_forecast_main_def item_def as_num_def as_obj_def and_then_def)
  have "\<exists>row. ?row wind_proj br = Inr row" if "br \<in> set bess" for br
  proof -
    from base that obtain annual where
      "power_law_spread (snd br) floor' spread_ref bess_ref alpha = Inr annual"
      by (cases br) auto
    moreover from seasonal_adjustment_total [OF ref]
    obtain season where
      "seasonal_adjustment (date_month (fst br)) month_coefs spread_ref = Inr season"
      by blast
    ultimately show ?thesis
      using fan by (rule forecast_row_total)
  qed
  with for_each_total [of bess "?row wind_proj"]
  obtain rows where rows: "for_each (?row wind_proj) bess = Inr rows"
    by blast
  have "\<exists>annual season.
            power_law_spread (snd (bess ! i)) floor' spread_ref bess_ref alpha = Inr annual
          \<and> seasonal_adjustment (date_month (fst (bess ! i))) month_coefs spread_ref = Inr season
          \<and> map_of (rows ! i) ''date'' = Some (CDate (fst (bess ! i)))
          \<and> map_of (rows ! i) ''wholesale_spread_mwh'' = Some (CNum (max (annual * season) 0))
          \<and> map_of (rows ! i) ''agile_spread_mwh''
              = Some (CNum (price_multiplier * max (annual * season) 0))
          \<and> map_of (rows ! i) ''agile_spread_p_kwh''
              = Some (CNum (price_multiplier * max (annual * season) 0 / 10))"
    if "i < length bess" for i
  proof -
    from forecast_row_Inr [OF for_each_nth [OF rows that]]
    obtain annual season wind_gen ws_leading ws_falling where
      "power_law_spread (snd (bess ! i)) floor' spread_ref bess_ref alpha = Inr annual"
      and "seasonal_adjustment (date_month (fst (bess ! i))) month_coefs spread_ref = Inr season"
      and cells: "rows ! i = [(''date'', CDate (fst (bess ! i))),
              (''bess_gw'', CNum (snd (bess ! i))),
              (''wind_gen_gw'', CNum wind_gen),
              (''wholesale_spread_mwh'', CNum (max (annual * season) 0)),
              (''agile_spread_mwh'', CNum (price_multiplier * max (annual * season) 0)),
              (''agile_spread_p_kwh'',
                 CNum (price_multiplier * max (annual * season) 0 / 10)),
              (''spread_leading_the_way'', ws_leading),
              (''spread_falling_short'', ws_falling)]"
      by blast
    then show ?thesis
      by (intro exI [of _ annual] exI [of _ season]) simp
  qed
  then show ?thesis
    using run rows for_each_length [OF rows] by auto
qed


lemma combined_forecast_main_default_multiplier:
  assumes "tariff_params ''price_multiplier'' = None"
  shows "combined_forecast_main spread_params tariff_params bess scenarios ren =
      combined_forecast_main spread_params
        (tariff_params(''price_multiplier'' \<mapsto> Num (131/100))) bess scenarios ren"
  using assms by (simp add: combined_forecast_main_def dict_get_def)

lemma combined_forecast_main_default_coefs:
  assumes "spread_params ''month_coefs'' = None"
  shows "combined_forecast_main spread_params tariff_params bess scenarios ren =
      combined_forecast_main (spread_params(''month_coefs'' \<mapsto> Obj Map.empty))
        tariff_params bess scenarios ren"
  using assms by (simp add: combined_forecast_main_def dict_get_def item_def)

lemma combined_forecast_main_missing_key:
  assumes missing: "spread_params ''floor'' = None \<or> spread_params ''spread_ref'' = None
        \<or> spread_params ''bess_ref'' = None \<or> spread_params ''alpha'' = None"
  shows "\<exists>k. spread_params k = None
         \<and> combined_forecast_main spread_params tariff_params bess scenarios ren
             = Inl (KeyError k)"
proof -
  have step: "and_then (item spread_params k) f = (case spread_params k of
      None \<Rightarrow> Inl (KeyError k) | Some v \<Rightarrow> f v)"
    for k and f :: "jsonv \<Rightarrow> error + (string \<times> cell) list list"
    by (simp add: and_then_def item_def split: option.splits)
  show ?thesis
  proof (cases "spread_params ''floor''")
    case None
    then show ?thesis
      unfolding combined_forecast_main_def step by (intro exI [of _ "''floor''"]) simp
  next
    case floor: (Some v1)
    show ?thesis
    proof (cases "spread_params ''spread_ref''")
      case None
      with floor show ?thesis
        unfolding combined_forecast_main_def step by (intro exI [of _ "''spread_ref''"]) simp
    next
      case spread_ref: (Some v2)
      show ?thesis
      proof (cases "spread_params ''bess_ref''")
        case None
        with floor spread_ref show ?thesis
          unfolding combined_forecast_main_def step by (intro exI [of _ "''bess_ref''"]) simp
      next
        case bess_ref: (Some v3)
        with floor spread_ref missing have "spread_params ''alpha'' = None"
          by simp
        with floor spread_ref bess_ref show ?thesis
          unfolding combined_forecast_main_def step by (intro exI [of _ "''alpha''"]) simp
      qed
    qed
  qed
qed

text \<open>
  C10 (absent keys). Let the calibration artifact hold the six parameters, let the
  capacity forecast have rows, the renewables table be absent or have rows, the
  reference spread be nonzero, and the power law have a value at every capacity of the
  forecast and of the scenario table. Then the run returns a table with one row for
  each month, also when the pass-through artifact has no \<open>price_multiplier\<close> and the
  calibration artifact no \<open>month_coefs\<close>: the tariff spread of a row is 1.31 times its
  wholesale spread when the price multiplier is absent, and the seasonal factor is the
  one of the empty coefficient map when the coefficients are absent. A run without one
  of the two keys is the run with the default written into the artifact. A calibration
  artifact without one of the keys \<open>floor\<close>, \<open>spread_ref\<close>, \<open>bess_ref\<close>, \<open>alpha\<close> ends the
  run with a \<open>KeyError\<close> of a missing key, and no table is produced.
\<close>

theorem composer_defaults_and_required_keys:
  "(spread_params ''floor'' = Some (Num floor')
      \<and> spread_params ''spread_ref'' = Some (Num spread_ref)
      \<and> spread_params ''bess_ref'' = Some (Num bess_ref)
      \<and> spread_params ''alpha'' = Some (Num alpha)
      \<and> spread_params ''alpha_low'' = Some (Num alpha_low)
      \<and> spread_params ''alpha_high'' = Some (Num alpha_high)
      \<and> (spread_params ''month_coefs'' = None \<and> month_coefs = Map.empty
           \<or> spread_params ''month_coefs'' = Some (Obj month_coefs))
      \<and> (tariff_params ''price_multiplier'' = None \<and> price_multiplier = 131/100
           \<or> tariff_params ''price_multiplier'' = Some (Num price_multiplier))
      \<and> (tariff_params ''price_adder_mwh'' = None
           \<or> tariff_params ''price_adder_mwh'' = Some (Num price_adder))
      \<and> bess \<noteq> [] \<and> ren \<noteq> Some [] \<and> spread_ref \<noteq> 0
      \<and> (\<forall>(d, c) \<in> set bess.
            \<exists>v. power_law_spread c floor' spread_ref bess_ref alpha = Inr v)
      \<and> (\<forall>sc. scenarios = Some sc \<longrightarrow>
            (\<forall>(s, d, c) \<in> set sc.
               \<exists>v. power_law_spread c floor' spread_ref bess_ref alpha = Inr v))
    \<longrightarrow>
      (\<exists>rows. combined_forecast_main spread_params tariff_params bess scenarios ren = Inr rows
        \<and> length rows = length bess
        \<and> (\<forall>i < length bess. \<exists>annual season.
              power_law_spread (snd (bess ! i)) floor' spread_ref bess_ref alpha = Inr annual
            \<and> seasonal_adjustment (date_month (fst (bess ! i))) month_coefs spread_ref
                = Inr season
            \<and> map_of (rows ! i) ''date'' = Some (CDate (fst (bess ! i)))
            \<and> map_of (rows ! i) ''wholesale_spread_mwh''
                = Some (CNum (max (annual * season) 0))
            \<and> map_of (rows ! i) ''agile_spread_mwh''
                = Some (CNum (price_multiplier * max (annual * season) 0))
            \<and> map_of (rows ! i) ''agile_spread_p_kwh''
                = Some (CNum (price_multiplier * max (annual * season) 0 / 10)))))
   \<and> (tariff_params ''price_multiplier'' = None \<longrightarrow>
      combined_forecast_main spread_params tariff_params bess scenarios ren =
      combined_forecast_main spread_params
        (tariff_params(''price_multiplier'' \<mapsto> Num (131/100))) bess scenarios ren)
   \<and> (spread_params ''month_coefs'' = None \<longrightarrow>
      combined_forecast_main spread_params tariff_params bess scenarios ren =
      combined_forecast_main (spread_params(''month_coefs'' \<mapsto> Obj Map.empty))
        tariff_params bess scenarios ren)
   \<and> (spread_params ''floor'' = None \<or> spread_params ''spread_ref'' = None
        \<or> spread_params ''bess_ref'' = None \<or> spread_params ''alpha'' = None \<longrightarrow>
      (\<exists>k. spread_params k = None
         \<and> combined_forecast_main spread_params tariff_params bess scenarios ren
             = Inl (KeyError k)))"
proof (intro conjI impI)
  assume "spread_params ''floor'' = Some (Num floor')
      \<and> spread_params ''spread_ref'' = Some (Num spread_ref)
      \<and> spread_params ''bess_ref'' = Some (Num bess_ref)
      \<and> spread_params ''alpha'' = Some (Num alpha)
      \<and> spread_params ''alpha_low'' = Some (Num alpha_low)
      \<and> spread_params ''alpha_high'' = Some (Num alpha_high)
      \<and> (spread_params ''month_coefs'' = None \<and> month_coefs = Map.empty
           \<or> spread_params ''month_coefs'' = Some (Obj month_coefs))
      \<and> (tariff_params ''price_multiplier'' = None \<and> price_multiplier = 131/100
           \<or> tariff_params ''price_multiplier'' = Some (Num price_multiplier))
      \<and> (tariff_params ''price_adder_mwh'' = None
           \<or> tariff_params ''price_adder_mwh'' = Some (Num price_adder))
      \<and> bess \<noteq> [] \<and> ren \<noteq> Some [] \<and> spread_ref \<noteq> 0
      \<and> (\<forall>(d, c) \<in> set bess.
            \<exists>v. power_law_spread c floor' spread_ref bess_ref alpha = Inr v)
      \<and> (\<forall>sc. scenarios = Some sc \<longrightarrow>
            (\<forall>(s, d, c) \<in> set sc.
               \<exists>v. power_law_spread c floor' spread_ref bess_ref alpha = Inr v))"
  then show "\<exists>rows. combined_forecast_main spread_params tariff_params bess scenarios ren
          = Inr rows
        \<and> length rows = length bess
        \<and> (\<forall>i < length bess. \<exists>annual season.
              power_law_spread (snd (bess ! i)) floor' spread_ref bess_ref alpha = Inr annual
            \<and> seasonal_adjustment (date_month (fst (bess ! i))) month_coefs spread_ref
                = Inr season
            \<and> map_of (rows ! i) ''date'' = Some (CDate (fst (bess ! i)))
            \<and> map_of (rows ! i) ''wholesale_spread_mwh''
                = Some (CNum (max (annual * season) 0))
            \<and> map_of (rows ! i) ''agile_spread_mwh''
                = Some (CNum (price_multiplier * max (annual * season) 0))
            \<and> map_of (rows ! i) ''agile_spread_p_kwh''
                = Some (CNum (price_multiplier * max (annual * season) 0 / 10)))"
    by (elim conjE) (rule combined_forecast_main_total)
qed (simp_all only: combined_forecast_main_default_multiplier
      combined_forecast_main_default_coefs combined_forecast_main_missing_key)


theorem composer_defaults_and_required_keys_witness:
  "(\<exists>rows. combined_forecast_main example_spread_params Map.empty example_bess
        (Some example_scenarios) None = Inr rows
      \<and> length rows = length example_bess
      \<and> map_of (rows ! 0) ''wholesale_spread_mwh'' = Some (CNum (267/4))
      \<and> map_of (rows ! 0) ''agile_spread_mwh'' = Some (CNum (131/100 * (267/4))))
   \<and> (\<exists>k. (example_spread_params(''alpha'' := None)) k = None
         \<and> combined_forecast_main (example_spread_params(''alpha'' := None)) Map.empty
             example_bess (Some example_scenarios) None = Inl (KeyError k))"
proof
  have defined: "\<exists>v. power_law_spread 26 (27/2) 120 (13/2) (1/2) = Inr v"
    "\<exists>v. power_law_spread 104 (27/2) 120 (13/2) (1/2) = Inr v"
    "\<exists>v. power_law_spread (13/2) (27/2) 120 (13/2) (1/2) = Inr v"
    using example_power_law by blast+
  have "\<exists>rows. combined_forecast_main example_spread_params Map.empty example_bess
          (Some example_scenarios) None = Inr rows
        \<and> length rows = length example_bess
        \<and> (\<forall>i < length example_bess. \<exists>annual season.
              power_law_spread (snd (example_bess ! i)) (27/2) 120 (13/2) (1/2) = Inr annual
            \<and> seasonal_adjustment (date_month (fst (example_bess ! i))) Map.empty 120
                = Inr season
            \<and> map_of (rows ! i) ''date'' = Some (CDate (fst (example_bess ! i)))
            \<and> map_of (rows ! i) ''wholesale_spread_mwh''
                = Some (CNum (max (annual * season) 0))
            \<and> map_of (rows ! i) ''agile_spread_mwh''
                = Some (CNum (131/100 * max (annual * season) 0))
            \<and> map_of (rows ! i) ''agile_spread_p_kwh''
                = Some (CNum (131/100 * max (annual * season) 0 / 10)))"
    by (rule composer_defaults_and_required_keys
          [where spread_params = example_spread_params and tariff_params = Map.empty
             and alpha_low = "23/50" and alpha_high = "13/20" and price_adder = 65,
           THEN conjunct1, THEN mp])
      (simp add: defined)
  then obtain rows where
    run: "combined_forecast_main example_spread_params Map.empty example_bess
          (Some example_scenarios) None = Inr rows"
    and len: "length rows = length example_bess"
    and cells: "\<forall>i < length example_bess. \<exists>annual season.
              power_law_spread (snd (example_bess ! i)) (27/2) 120 (13/2) (1/2) = Inr annual
            \<and> seasonal_adjustment (date_month (fst (example_bess ! i))) Map.empty 120
                = Inr season
            \<and> map_of (rows ! i) ''date'' = Some (CDate (fst (example_bess ! i)))
            \<and> map_of (rows ! i) ''wholesale_spread_mwh''
                = Some (CNum (max (annual * season) 0))
            \<and> map_of (rows ! i) ''agile_spread_mwh''
                = Some (CNum (131/100 * max (annual * season) 0))
            \<and> map_of (rows ! i) ''agile_spread_p_kwh''
                = Some (CNum (131/100 * max (annual * season) 0 / 10))"
    by blast
  from cells [rule_format, of 0]
  have "map_of (rows ! 0) ''wholesale_spread_mwh'' = Some (CNum (267/4))"
    and "map_of (rows ! 0) ''agile_spread_mwh'' = Some (CNum (131/100 * (267/4)))"
    by (auto simp: example_power_law example_season)
  with run len
  show "\<exists>rows. combined_forecast_main example_spread_params Map.empty example_bess
        (Some example_scenarios) None = Inr rows
      \<and> length rows = length example_bess
      \<and> map_of (rows ! 0) ''wholesale_spread_mwh'' = Some (CNum (267/4))
      \<and> map_of (rows ! 0) ''agile_spread_mwh'' = Some (CNum (131/100 * (267/4)))"
    by blast
next
  show "\<exists>k. (example_spread_params(''alpha'' := None)) k = None
         \<and> combined_forecast_main (example_spread_params(''alpha'' := None)) Map.empty
             example_bess (Some example_scenarios) None = Inl (KeyError k)"
    by (rule composer_defaults_and_required_keys
          [where spread_params = "example_spread_params(''alpha'' := None)"
             and tariff_params = Map.empty and bess = example_bess
             and scenarios = "Some example_scenarios" and ren = None,
           THEN conjunct2, THEN conjunct2, THEN conjunct2, THEN mp]) simp
qed

section \<open>The merged panel\<close>

lemma merge_wind_sound:
  assumes "r' \<in> set (merge_wind rows g)"
  shows "\<exists>r \<in> set rows. p_date r' = p_date r \<and> p_spread r' = p_spread r
     \<and> p_price r' = p_price r \<and> p_bess_gw r' = p_bess_gw r"
proof -
  from assms obtain r where r: "r \<in> set rows"
    and "r' \<in> set (case filter (\<lambda>x. g_date x = p_date r) g of
                     [] \<Rightarrow> [r\<lparr>p_wind_gen_gw := None\<rparr>]
                   | gs \<Rightarrow> map (\<lambda>x. r\<lparr>p_wind_gen_gw := g_wind_gen_gw x\<rparr>) gs)"
    by (auto simp: merge_wind_def)
  then have "\<exists>w. r' = r\<lparr>p_wind_gen_gw := w\<rparr>"
    by (cases "filter (\<lambda>x. g_date x = p_date r) g") auto
  with r show ?thesis
    by (intro bexI [of _ r]) auto
qed

lemma merge_wind_complete:
  assumes "r \<in> set rows"
  shows "\<exists>r' \<in> set (merge_wind rows g). p_date r' = p_date r \<and> p_spread r' = p_spread r
     \<and> p_price r' = p_price r \<and> p_bess_gw r' = p_bess_gw r"
proof (cases "filter (\<lambda>x. g_date x = p_date r) g")
  case Nil
  then have "r\<lparr>p_wind_gen_gw := None\<rparr> \<in> set (merge_wind rows g)"
    using assms unfolding merge_wind_def by (auto intro!: bexI [of _ r])
  then show ?thesis
    by (intro bexI [of _ "r\<lparr>p_wind_gen_gw := None\<rparr>"]) simp_all
next
  case (Cons x xs)
  then have "r\<lparr>p_wind_gen_gw := g_wind_gen_gw x\<rparr> \<in> set (merge_wind rows g)"
    using assms unfolding merge_wind_def by (auto intro!: bexI [of _ r])
  then show ?thesis
    by (intro bexI [of _ "r\<lparr>p_wind_gen_gw := g_wind_gen_gw x\<rparr>"]) simp_all
qed

lemma zip_with_map: "zip xs (map f xs) = map (\<lambda>x. (x, f x)) xs"
  by (induction xs) simp_all

text \<open>
  When both tables have rows and no two historic capacity rows lie in the same month,
  the merger returns a panel; a table without rows and a month with two historic rows
  end the run.
\<close>

lemma load_and_merge_value:
  assumes "distinct (map fst (bess_lookup bess))" and "bess \<noteq> []"
    and "(case elexon of Some e \<Rightarrow> e | None \<Rightarrow> agile) \<noteq> []"
  shows "load_and_merge elexon agile bess gen =
    (let spread = (case elexon of Some e \<Rightarrow> e | None \<Rightarrow> agile);
         rows = map (\<lambda>d. \<lparr>p_date = d_date d, p_spread = d_spread d, p_price = d_price d,
                   p_bess_gw = (case map_of (bess_lookup bess) (year_month (d_date d)) of
                                  None \<Rightarrow> None | Some v \<Rightarrow> v),
                   p_wind_gen_gw = None\<rparr>) spread;
         merged = (case gen of Some g \<Rightarrow> merge_wind rows g | None \<Rightarrow> rows)
     in Inr (filter (\<lambda>r. p_bess_gw r \<noteq> None) merged,
             (case elexon of Some e \<Rightarrow> ''wholesale_spread'' | None \<Rightarrow> ''spread_max_min''),
             (case elexon of Some e \<Rightarrow> ''wholesale_mean'' | None \<Rightarrow> ''price_mean'')))"
  using assms
  by (cases elexon; cases gen)
    (simp_all add: load_and_merge_def series_map_def and_then_def Let_def zip_with_map o_def)

lemma load_and_merge_duplicates:
  assumes "\<not> distinct (map fst (bess_lookup bess))" and "bess \<noteq> []"
    and "(case elexon of Some e \<Rightarrow> e | None \<Rightarrow> agile) \<noteq> []"
  shows "load_and_merge elexon agile bess gen = Inl InvalidIndexError"
  using assms
  by (cases elexon) (simp_all add: load_and_merge_def series_map_def and_then_def)

lemma load_and_merge_no_rows:
  assumes "bess = [] \<or> (case elexon of Some e \<Rightarrow> e | None \<Rightarrow> agile) = []"
  shows "load_and_merge elexon agile bess gen = Inl AttributeError"
  using assms by (cases elexon) (auto simp: load_and_merge_def)

text \<open>
  C9 (merger invariant), as amended. When the daily table and the capacity table have
  rows and no two historic capacity rows lie in the same month, the merger returns a
  panel in which every row has a capacity, the historic capacity of the month of its
  date; every daily row whose month has a historic
  capacity value is in the panel with that value; and every row of the panel comes
  from a daily row. A daily row whose month has no historic capacity value, also when
  the month has a projected one, is dropped.
\<close>

theorem merged_panel_capacity:
  assumes "distinct (map fst (bess_lookup bess))" and "bess \<noteq> []"
    and "(case elexon of Some e \<Rightarrow> e | None \<Rightarrow> agile) \<noteq> []"
  shows "\<exists>panel spread_col price_col.
      load_and_merge elexon agile bess gen = Inr (panel, spread_col, price_col)
    \<and> (\<forall>r \<in> set panel. \<exists>c. p_bess_gw r = Some c
          \<and> map_of (bess_lookup bess) (year_month (p_date r)) = Some (Some c))
    \<and> (\<forall>d \<in> set (case elexon of Some e \<Rightarrow> e | None \<Rightarrow> agile). \<forall>c.
          map_of (bess_lookup bess) (year_month (d_date d)) = Some (Some c) \<longrightarrow>
          (\<exists>r \<in> set panel. p_date r = d_date d \<and> p_spread r = d_spread d
             \<and> p_price r = d_price d \<and> p_bess_gw r = Some c))
    \<and> (\<forall>r \<in> set panel. \<exists>d \<in> set (case elexon of Some e \<Rightarrow> e | None \<Rightarrow> agile).
          p_date r = d_date d \<and> p_spread r = d_spread d \<and> p_price r = d_price d)"
proof -
  define spread where "spread = (case elexon of Some e \<Rightarrow> e | None \<Rightarrow> agile)"
  define lk where "lk k = (case map_of (bess_lookup bess) k of None \<Rightarrow> None | Some v \<Rightarrow> v)"
    for k
  define row :: "daily_row \<Rightarrow> panel_row" where "row d = \<lparr>p_date = d_date d, p_spread = d_spread d, p_price = d_price d,
      p_bess_gw = lk (year_month (d_date d)), p_wind_gen_gw = None\<rparr>" for d
  define merged where
    "merged = (case gen of Some g \<Rightarrow> merge_wind (map row spread) g | None \<Rightarrow> map row spread)"
  define panel where "panel = filter (\<lambda>r. p_bess_gw r \<noteq> None) merged"
  have lk_Some: "lk k = Some c \<longleftrightarrow> map_of (bess_lookup bess) k = Some (Some c)" for k c
    by (simp add: lk_def split: option.splits)
  have sound: "\<exists>d \<in> set spread. p_date r = d_date d \<and> p_spread r = d_spread d
      \<and> p_price r = d_price d \<and> p_bess_gw r = lk (year_month (d_date d))"
    if "r \<in> set merged" for r
  proof (cases gen)
    case None
    with that show ?thesis
      by (auto simp: merged_def row_def)
  next
    case (Some g)
    with that merge_wind_sound [of r "map row spread" g] show ?thesis
      by (auto simp: merged_def row_def)
  qed
  have complete: "\<exists>r \<in> set merged. p_date r = d_date d \<and> p_spread r = d_spread d
      \<and> p_price r = d_price d \<and> p_bess_gw r = lk (year_month (d_date d))"
    if "d \<in> set spread" for d
  proof (cases gen)
    case None
    with that show ?thesis
      by (auto simp: merged_def row_def intro!: bexI [of _ "row d"])
  next
    case (Some g)
    from that have "row d \<in> set (map row spread)"
      by simp
    from merge_wind_complete [OF this, of g] Some show ?thesis
      by (auto simp: merged_def row_def)
  qed
  have result: "load_and_merge elexon agile bess gen =
      Inr (panel,
           (case elexon of Some e \<Rightarrow> ''wholesale_spread'' | None \<Rightarrow> ''spread_max_min''),
           (case elexon of Some e \<Rightarrow> ''wholesale_mean'' | None \<Rightarrow> ''price_mean''))"
    unfolding load_and_merge_value [OF assms] Let_def panel_def merged_def row_def lk_def
      spread_def
    by (rule refl)
  have 1: "\<exists>c. p_bess_gw r = Some c
      \<and> map_of (bess_lookup bess) (year_month (p_date r)) = Some (Some c)"
    if "r \<in> set panel" for r
  proof -
    from that have "r \<in> set merged" and "p_bess_gw r \<noteq> None"
      by (simp_all add: panel_def)
    with sound [of r] show ?thesis
      by (auto simp: lk_Some)
  qed
  have 2: "\<exists>r \<in> set panel. p_date r = d_date d \<and> p_spread r = d_spread d
             \<and> p_price r = d_price d \<and> p_bess_gw r = Some c"
    if "d \<in> set spread" and "map_of (bess_lookup bess) (year_month (d_date d)) = Some (Some c)"
    for d c
  proof -
    from complete [OF that(1)] obtain r where "r \<in> set merged"
      and "p_date r = d_date d" "p_spread r = d_spread d" "p_price r = d_price d"
      and "p_bess_gw r = lk (year_month (d_date d))"
      by blast
    moreover from that(2) have "lk (year_month (d_date d)) = Some c"
      by (simp add: lk_Some)
    ultimately show ?thesis
      by (intro bexI [of _ r]) (simp_all add: panel_def)
  qed
  have 3: "\<exists>d \<in> set spread. p_date r = d_date d \<and> p_spread r = d_spread d
      \<and> p_price r = d_price d"
    if "r \<in> set panel" for r
  proof -
    from that have "r \<in> set merged"
      by (simp add: panel_def)
    with sound [of r] show ?thesis
      by blast
  qed
  show ?thesis
    unfolding result spread_def [symmetric] using 1 2 3 by blast
qed


theorem merged_panel_capacity_witness:
  "\<exists>panel spread_col price_col.
      load_and_merge None example_daily example_capacity None
        = Inr (panel, spread_col, price_col)
    \<and> (\<exists>r. r \<in> set panel \<and> p_date r = Date 2025 12 15 \<and> p_bess_gw r = Some (13/2))"
proof -
  have "distinct (map fst (bess_lookup example_capacity))"
    and "example_capacity \<noteq> []"
    and "(case None of Some e \<Rightarrow> e | None \<Rightarrow> example_daily) \<noteq> []"
    by (simp_all add: bess_lookup_def)
  from merged_panel_capacity [OF this, of None]
  obtain panel spread_col price_col where
    run: "load_and_merge None example_daily example_capacity None
        = Inr (panel, spread_col, price_col)"
    and received: "\<forall>d \<in> set (case None of Some e \<Rightarrow> e | None \<Rightarrow> example_daily). \<forall>c.
          map_of (bess_lookup example_capacity) (year_month (d_date d)) = Some (Some c) \<longrightarrow>
          (\<exists>r \<in> set panel. p_date r = d_date d \<and> p_spread r = d_spread d
             \<and> p_price r = d_price d \<and> p_bess_gw r = Some c)"
    by auto
  have "map_of (bess_lookup example_capacity) (year_month (Date 2025 12 15)) = Some (Some (13/2))"
    by (simp add: bess_lookup_def year_month_def)
  with received [rule_format,
      of "\<lparr>d_date = Date 2025 12 15, d_spread = Some 85, d_price = Some 95\<rparr>" "13/2"]
  have "\<exists>r \<in> set panel. p_date r = Date 2025 12 15 \<and> p_bess_gw r = Some (13/2)"
    by auto
  with run show ?thesis
    by blast
qed

text \<open>
  A month with a capacity value of the scenario projection only: the daily row of
  2026-01-15 is dropped, although the capacity series has a value for January 2026.
\<close>

theorem merged_panel_capacity_counterexample:
  "year_month (Date 2026 1 15) = year_month (Date 2026 1 1)
   \<and> load_and_merge None
        [\<lparr>d_date = Date 2026 1 15, d_spread = Some 80, d_price = Some 90\<rparr>]
        [\<lparr>b_date = Date 2026 1 1, b_capacity_gw = Some (15/2),
          b_source = ''fes_system_transformation''\<rparr>]
        None
      = Inr ([], ''spread_max_min'', ''price_mean'')"
  by (simp add: year_month_def load_and_merge_def series_map_def bess_lookup_def and_then_def)

section \<open>The degraded pass-through mode\<close>

lemma degraded_artifact:
  "tariff_model_main ols agile None =
     Inr [(''spread_multiplier'', Num 1),
          (''spread_intercept'', Num 0),
          (''spread_r_squared'', Null),
          (''price_multiplier'', Num 1),
          (''price_adder_mwh'', Num 0),
          (''price_r_squared'', Null),
          (''n_obs'', Num (real (length agile))),
          (''note'', Str ''No Elexon cross-validation available - using Agile prices as direct proxy'')]"
  by (simp add: tariff_model_main_def)

lemma fitted_artifact_no_note:
  assumes "tariff_model_main ols agile (Some ex) = Inr art"
  shows "map_of art ''note'' = None"
  using assms by (auto simp: tariff_model_main_def Let_def and_then_Inr)

lemma forecast_row_tariff_cells:
  assumes "combined_forecast_main spread_params tariff_params bess scenarios ren = Inr rows"
    and "row \<in> set rows"
  shows "\<exists>price_multiplier ws.
      dict_get tariff_params ''price_multiplier'' (Num (131/100)) = Num price_multiplier
    \<and> map_of row ''wholesale_spread_mwh'' = Some (CNum ws)
    \<and> map_of row ''agile_spread_mwh'' = Some (CNum (price_multiplier * ws))"
proof -
  from combined_forecast_main_Inr [OF assms(1)]
  obtain floor' spread_ref bess_ref alpha month_coefs price_multiplier wind_proj where
    pm: "dict_get tariff_params ''price_multiplier'' (Num (131/100)) = Num price_multiplier"
    and loop: "for_each (forecast_row floor' spread_ref bess_ref alpha month_coefs
                   price_multiplier scenarios wind_proj) bess = Inr rows"
    by blast
  from for_each_row [OF loop assms(2)]
  obtain br where "forecast_row floor' spread_ref bess_ref alpha month_coefs
                price_multiplier scenarios wind_proj br = Inr row"
    by blast
  from forecast_row_Inr [OF this]
  obtain ws where "map_of row ''wholesale_spread_mwh'' = Some (CNum ws)"
    and "map_of row ''agile_spread_mwh'' = Some (CNum (price_multiplier * ws))"
    by auto
  with pm show ?thesis
    by blast
qed

text \<open>
  C8 (degraded pass-through mode), as amended. When no Elexon file is supplied, the
  tariff model returns the identity mapping: both multipliers are 1, the intercept and
  the adder are 0. The artifact has a \<open>note\<close> entry, which no artifact of a run with an
  Elexon file has. In every row of a forecast that the composer produces from this
  artifact the tariff spread equals the wholesale spread.
\<close>

theorem degraded_pass_through:
  "\<exists>art. tariff_model_main ols agile None = Inr art
     \<and> map_of art ''spread_multiplier'' = Some (Num 1)
     \<and> map_of art ''spread_intercept'' = Some (Num 0)
     \<and> map_of art ''price_multiplier'' = Some (Num 1)
     \<and> map_of art ''price_adder_mwh'' = Some (Num 0)
     \<and> map_of art ''note'' \<noteq> None
     \<and> (\<forall>ex art'. tariff_model_main ols agile (Some ex) = Inr art' \<longrightarrow>
           map_of art' ''note'' = None)
     \<and> (\<forall>spread_params bess scenarios ren rows row.
           combined_forecast_main spread_params (map_of art) bess scenarios ren = Inr rows
           \<and> row \<in> set rows \<longrightarrow>
           (\<exists>ws. map_of row ''wholesale_spread_mwh'' = Some (CNum ws)
              \<and> map_of row ''agile_spread_mwh'' = Some (CNum ws)))"
proof -
  define art where "art =
         [(''spread_multiplier'', Num 1),
          (''spread_intercept'', Num 0),
          (''spread_r_squared'', Null),
          (''price_multiplier'', Num 1),
          (''price_adder_mwh'', Num 0),
          (''price_r_squared'', Null),
          (''n_obs'', Num (real (length agile))),
          (''note'', Str ''No Elexon cross-validation available - using Agile prices as direct proxy'')]"
  have run: "tariff_model_main ols agile None = Inr art"
    unfolding art_def by (rule degraded_artifact)
  have pm: "dict_get (map_of art) ''price_multiplier'' (Num (131/100)) = Num 1"
    by (simp add: dict_get_def art_def)
  have composed: "\<exists>ws. map_of row ''wholesale_spread_mwh'' = Some (CNum ws)
              \<and> map_of row ''agile_spread_mwh'' = Some (CNum ws)"
    if "combined_forecast_main spread_params (map_of art) bess scenarios ren = Inr rows
          \<and> row \<in> set rows"
    for spread_params bess scenarios ren rows row
  proof -
    from forecast_row_tariff_cells [OF that [THEN conjunct1] that [THEN conjunct2]]
    obtain price_multiplier ws where
      "dict_get (map_of art) ''price_multiplier'' (Num (131/100)) = Num price_multiplier"
      and "map_of row ''wholesale_spread_mwh'' = Some (CNum ws)"
      and "map_of row ''agile_spread_mwh'' = Some (CNum (price_multiplier * ws))"
      by blast
    with pm show ?thesis
      by simp
  qed
  have entries: "map_of art ''spread_multiplier'' = Some (Num 1)"
    "map_of art ''spread_intercept'' = Some (Num 0)"
    "map_of art ''price_multiplier'' = Some (Num 1)"
    "map_of art ''price_adder_mwh'' = Some (Num 0)"
    "map_of art ''note'' \<noteq> None"
    by (simp_all add: art_def)
  show ?thesis
  proof (intro exI [of _ art] conjI allI impI)
    show "tariff_model_main ols agile None = Inr art"
      by (rule run)
  qed (use entries composed fitted_artifact_no_note in blast)+
qed


theorem degraded_pass_through_witness:
  "\<exists>art ws. tariff_model_main example_ols example_agile None = Inr art
     \<and> map_of art ''note'' \<noteq> None
     \<and> combined_forecast_main example_spread_params (map_of art) example_bess
          (Some example_scenarios) None = Inr [example_row 1]
     \<and> map_of (example_row 1) ''wholesale_spread_mwh'' = Some (CNum ws)
     \<and> map_of (example_row 1) ''agile_spread_mwh'' = Some (CNum ws)
     \<and> (\<exists>art'. tariff_model_main example_ols example_agile (Some example_elexon) = Inr art'
           \<and> map_of art' ''note'' = None)"
proof -
  from degraded_pass_through [of example_ols example_agile]
  obtain art where run: "tariff_model_main example_ols example_agile None = Inr art"
    and pm: "map_of art ''price_multiplier'' = Some (Num 1)"
    and adder: "map_of art ''price_adder_mwh'' = Some (Num 0)"
    and flag: "map_of art ''note'' \<noteq> None"
    and fitted: "\<forall>ex art'. tariff_model_main example_ols example_agile (Some ex) = Inr art' \<longrightarrow>
           map_of art' ''note'' = None"
    and composed: "\<forall>spread_params bess scenarios ren rows row.
           combined_forecast_main spread_params (map_of art) bess scenarios ren = Inr rows
           \<and> row \<in> set rows \<longrightarrow>
           (\<exists>ws. map_of row ''wholesale_spread_mwh'' = Some (CNum ws)
              \<and> map_of row ''agile_spread_mwh'' = Some (CNum ws))"
    by blast
  have forecast: "combined_forecast_main example_spread_params (map_of art) example_bess
          (Some example_scenarios) None = Inr [example_row 1]"
    by (rule example_run [where adder = 0]) (simp_all add: dict_get_def pm adder)
  with composed [rule_format, of example_spread_params example_bess "Some example_scenarios"
      None "[example_row 1]" "example_row 1"]
  obtain ws where "map_of (example_row 1) ''wholesale_spread_mwh'' = Some (CNum ws)"
    and "map_of (example_row 1) ''agile_spread_mwh'' = Some (CNum ws)"
    by auto
  moreover obtain art' where
    "tariff_model_main example_ols example_agile (Some example_elexon) = Inr art'"
    by (simp add: tariff_model_main_def Let_def and_then_def)
  moreover from this fitted have "map_of art' ''note'' = None"
    by blast
  ultimately show ?thesis
    using run flag forecast by blast
qed

text \<open>
  The degraded branch is taken when the Elexon file does not exist, not when no day
  overlaps. With an Elexon file whose only day is not a day of the Agile series the
  regressions are run on no observations; whatever they return, the run produces no
  artifact with a \<open>note\<close> entry.
\<close>

theorem degraded_pass_through_counterexample:
  "overlap example_agile example_elexon = []
   \<and> (\<forall>ols. \<not> (\<exists>art. tariff_model_main ols example_agile (Some example_elexon) = Inr art
                      \<and> map_of art ''note'' \<noteq> None))"
  using fitted_artifact_no_note by (auto simp: overlap_def)

end
